theory Spec2Isabelle
  imports
    Main
    "HOL-Library.AList"
    "HOL-Library.Finite_Map"
    "HOL-Library.Char_ord"
    "HOL-Library.List_Lexorder"
begin

section \<open>The tool node (\<^verbatim>\<open>langgraph/prebuilt/tool_node.py\<close>)\<close>

subsection \<open>Exceptions\<close>

text \<open>
  Python exceptions are values. \<open>ValueError\<close> and \<open>IndexError\<close> are what the node itself
  raises, \<open>KeyError\<close> is what a failed dictionary subscript raises, and \<open>Exception r\<close> is any
  other instance of Python's \<^verbatim>\<open>Exception\<close> class (what a tool raises), given by the text
  \<open>r\<close> that \<^verbatim>\<open>repr\<close> prints for it. The model has only instances of \<^verbatim>\<open>Exception\<close>, which is
  the class the \<^verbatim>\<open>except Exception\<close> clauses of the source intercept.
\<close>

datatype exn =
    ValueError string
  | IndexError string
  | KeyError string
  | Exception string

definition quoted :: "string \<Rightarrow> string" where
  "quoted s = [CHR 0x27] @ s @ [CHR 0x27]"

fun repr :: "exn \<Rightarrow> string" where
  "repr (ValueError m) = ''ValueError('' @ quoted m @ '')''"
| "repr (IndexError m) = ''IndexError('' @ quoted m @ '')''"
| "repr (KeyError k) = ''KeyError('' @ quoted k @ '')''"
| "repr (Exception r) = r"

subsection \<open>Tool calls, messages, tools\<close>

text \<open>
  A \<^verbatim>\<open>ToolCall\<close> is the dictionary \<^verbatim>\<open>{"name": ..., "args": ..., "id": ...}\<close>; the arguments are
  opaque. A \<^verbatim>\<open>ToolMessage\<close> has the three fields the node sets. A message of the input is an
  \<^verbatim>\<open>AIMessage\<close> with its \<^verbatim>\<open>tool_calls\<close>, or any other object, which may or may not have a
  \<^verbatim>\<open>tool_calls\<close> attribute (\<open>OtherMessage None\<close> has none).
\<close>

record 'a tool_call =
  call_name :: string
  call_args :: 'a
  call_id :: string

record tool_message =
  content :: string
  name :: string
  tool_call_id :: string

datatype 'a message =
    AIMessage "'a tool_call list"
  | OtherMessage "'a tool_call list option"

fun tool_calls_attr :: "'a message \<Rightarrow> 'a tool_call list option" where
  "tool_calls_attr (AIMessage calls) = Some calls"
| "tool_calls_attr (OtherMessage a) = a"

text \<open>
  The input of the node is a list of messages or a dictionary; of a dictionary the model keeps
  the entries that are lists of messages.
\<close>

datatype 'a state =
    State_list "'a message list"
  | State_dict "string \<rightharpoonup> 'a message list"

text \<open>
  A tool is opaque: a name, and what \<^verbatim>\<open>invoke\<close> and \<^verbatim>\<open>ainvoke\<close> do with a tool call and a
  configuration, which is to return a \<^verbatim>\<open>ToolMessage\<close> or to raise.
\<close>

record ('a, 'c) base_tool =
  tool_name :: string
  invoke :: "'a tool_call \<Rightarrow> 'c \<Rightarrow> exn + tool_message"
  ainvoke :: "'a tool_call \<Rightarrow> 'c \<Rightarrow> exn + tool_message"

text \<open>
  \<^verbatim>\<open>tools_by_name\<close> is a Python dictionary: its keys are kept in insertion order, and
  assigning to a key that is present replaces the value in place. That is an association list
  with \<open>AList.update\<close>. \<^verbatim>\<open>handle_tool_errors\<close> is an \<^verbatim>\<open>Optional[bool]\<close>.
\<close>

record ('a, 'c) tool_node =
  tools_by_name :: "(string \<times> ('a, 'c) base_tool) list"
  handle_tool_errors :: "bool option"

definition ToolNode :: "('a, 'c) base_tool list \<Rightarrow> bool option \<Rightarrow> ('a, 'c) tool_node" where
  "ToolNode tools hte =
     \<lparr>tools_by_name = foldl (\<lambda>d tool'. AList.update (tool_name tool') tool' d) [] tools,
      handle_tool_errors = hte\<rparr>"

fun truthy :: "bool option \<Rightarrow> bool" where
  "truthy None = False"
| "truthy (Some b) = b"

subsection \<open>The two templates\<close>

fun join :: "string \<Rightarrow> string list \<Rightarrow> string" where
  "join sep [] = []"
| "join sep [x] = x"
| "join sep (x # y # ys) = x @ sep @ join sep (y # ys)"

definition INVALID_TOOL_NAME_ERROR_TEMPLATE :: "string \<Rightarrow> string \<Rightarrow> string" where
  "INVALID_TOOL_NAME_ERROR_TEMPLATE requested_tool available_tools =
     ''Error: '' @ requested_tool @ '' is not a valid tool, try one of ['' @ available_tools @ ''].''"

definition TOOL_CALL_ERROR_TEMPLATE :: "string \<Rightarrow> string" where
  "TOOL_CALL_ERROR_TEMPLATE error =
     ''Error: '' @ error @ [CHR 0x0A] @ '' Please fix your mistakes.''"

subsection \<open>One invocation\<close>

definition validate_tool_call :: "('a, 'c) tool_node \<Rightarrow> 'a tool_call \<Rightarrow> tool_message option" where
  "validate_tool_call self call =
     (let requested_tool = call_name call in
      if requested_tool \<notin> set (map fst (tools_by_name self)) then
        Some \<lparr>content = INVALID_TOOL_NAME_ERROR_TEMPLATE requested_tool
                           (join '', '' (map fst (tools_by_name self))),
              name = requested_tool,
              tool_call_id = call_id call\<rparr>
      else None)"

text \<open>
  The \<^verbatim>\<open>except Exception as e\<close> clause of \<^verbatim>\<open>_run_one\<close> and \<^verbatim>\<open>_arun_one\<close>.
\<close>

definition except_clause :: "('a, 'c) tool_node \<Rightarrow> 'a tool_call \<Rightarrow> exn \<Rightarrow> exn + tool_message" where
  "except_clause self call e =
     (if \<not> truthy (handle_tool_errors self) then Inl e
      else Inr \<lparr>content = TOOL_CALL_ERROR_TEMPLATE (repr e),
                name = call_name call,
                tool_call_id = call_id call\<rparr>)"

text \<open>
  \<^verbatim>\<open>_run_one\<close> returns a message or raises. The second component of the model's result lists
  the calls that were handed to a tool, so that "no action is executed" can be said.
\<close>

definition run_one ::
  "('a, 'c) tool_node \<Rightarrow> 'a tool_call \<Rightarrow> 'c \<Rightarrow> (exn + tool_message) \<times> 'a tool_call list" where
  "run_one self call config =
     (case validate_tool_call self call of
        Some invalid_tool_message \<Rightarrow> (Inr invalid_tool_message, [])
      | None \<Rightarrow>
          (case map_of (tools_by_name self) (call_name call) of
             None \<Rightarrow> (except_clause self call (KeyError (call_name call)), [])
           | Some t \<Rightarrow>
               (case invoke t call config of
                  Inr m \<Rightarrow> (Inr m, [call])
                | Inl e \<Rightarrow> (except_clause self call e, [call]))))"

definition arun_one ::
  "('a, 'c) tool_node \<Rightarrow> 'a tool_call \<Rightarrow> 'c \<Rightarrow> (exn + tool_message) \<times> 'a tool_call list" where
  "arun_one self call config =
     (case validate_tool_call self call of
        Some invalid_tool_message \<Rightarrow> (Inr invalid_tool_message, [])
      | None \<Rightarrow>
          (case map_of (tools_by_name self) (call_name call) of
             None \<Rightarrow> (except_clause self call (KeyError (call_name call)), [])
           | Some t \<Rightarrow>
               (case ainvoke t call config of
                  Inr m \<Rightarrow> (Inr m, [call])
                | Inl e \<Rightarrow> (except_clause self call e, [call]))))"

subsection \<open>Parsing the input\<close>

datatype output_type = OT_list | OT_dict

text \<open>
  \<^verbatim>\<open>_parse_input\<close> returns the last message, cast to \<^verbatim>\<open>AIMessage\<close>, and the output type. The
  model returns the \<^verbatim>\<open>tool_calls\<close> of that message, which is all an \<open>AIMessage\<close> has here.
  \<^verbatim>\<open>input[-1]\<close> on an empty list raises \<^verbatim>\<open>IndexError\<close>; \<^verbatim>\<open>input.get("messages", [])\<close> is falsy
  when the key is missing or the list is empty.
\<close>

definition parse_input :: "'a state \<Rightarrow> exn + ('a tool_call list \<times> output_type)" where
  "parse_input input =
     (case
        (case input of
           State_list ms \<Rightarrow>
             (if ms = [] then Inl (IndexError ''list index out of range'')
              else Inr (last ms, OT_list))
         | State_dict d \<Rightarrow>
             (case d ''messages'' of
                None \<Rightarrow> Inl (ValueError ''No message found in input'')
              | Some messages \<Rightarrow>
                  (if messages = [] then Inl (ValueError ''No message found in input'')
                   else Inr (last messages, OT_dict))))
      of
        Inl e \<Rightarrow> Inl e
      | Inr (message, output_type) \<Rightarrow>
          (case message of
             AIMessage calls \<Rightarrow> Inr (calls, output_type)
           | OtherMessage a \<Rightarrow> Inl (ValueError ''Last message is not an AIMessage'')))"

subsection \<open>The blocking path\<close>

text \<open>
  \<^verbatim>\<open>get_config_list\<close> of \<^verbatim>\<open>langchain_core\<close> makes one configuration for each call from the
  caller's configuration; the model takes them to be the caller's configuration itself.
\<close>

definition get_config_list :: "'c \<Rightarrow> nat \<Rightarrow> 'c list" where
  "get_config_list config length' = replicate length' config"

text \<open>
  Iterating over \<^verbatim>\<open>executor.map(...)\<close> yields the results of the jobs in the order of the
  arguments, and raises at the first job, in that order, that raised.
\<close>

fun results :: "(exn + 'b) list \<Rightarrow> exn + 'b list" where
  "results [] = Inr []"
| "results (Inl e # rs) = Inl e"
| "results (Inr x # rs) = (case results rs of Inl e \<Rightarrow> Inl e | Inr xs \<Rightarrow> Inr (x # xs))"

text \<open>
  \<^verbatim>\<open>executor.map(f, xs, ys)\<close> submits one job for each pair of \<^verbatim>\<open>zip(xs, ys)\<close>. The second
  component collects the tool invocations of the jobs submitted; when a job raises, the
  executor may cancel jobs that have not started, so on that path the list is an upper bound.
\<close>

definition executor_map ::
  "('x \<Rightarrow> 'y \<Rightarrow> (exn + 'b) \<times> 'i list) \<Rightarrow> 'x list \<Rightarrow> 'y list \<Rightarrow> (exn + 'b list) \<times> 'i list" where
  "executor_map f xs ys =
     (let jobs = map (\<lambda>(x, y). f x y) (zip xs ys)
      in (results (map fst jobs), concat (map snd jobs)))"

datatype node_output =
    Out_list "tool_message list"
  | Out_dict "(string \<times> tool_message list) list"

definition assemble :: "output_type \<Rightarrow> tool_message list \<Rightarrow> node_output" where
  "assemble output_type outputs =
     (if output_type = OT_list then Out_list outputs
      else Out_dict [(''messages'', outputs)])"

definition func ::
  "('a, 'c) tool_node \<Rightarrow> 'a state \<Rightarrow> 'c \<Rightarrow> (exn + node_output) \<times> 'a tool_call list" where
  "func self input config =
     (case parse_input input of
        Inl e \<Rightarrow> (Inl e, [])
      | Inr (calls, output_type) \<Rightarrow>
          (let config_list = get_config_list config (length calls) in
           case executor_map (run_one self) calls config_list of
             (Inl e, invoked) \<Rightarrow> (Inl e, invoked)
           | (Inr outputs, invoked) \<Rightarrow> (Inr (assemble output_type outputs), invoked)))"

subsection \<open>The non-blocking path\<close>

text \<open>
  \<^verbatim>\<open>asyncio.gather\<close> returns the results in the order of its arguments when every coroutine
  returns; otherwise it raises the exception of the coroutine that raised first in time,
  which can be any of those that raise. So the awaited call is a relation between the results
  of the coroutines and what \<^verbatim>\<open>gather\<close> gives.
\<close>

inductive gather :: "(exn + 'b) list \<Rightarrow> exn + 'b list \<Rightarrow> bool" where
  gather_all: "results rs = Inr outs \<Longrightarrow> gather rs (Inr outs)"
| gather_raise_first: "gather (Inl e # rs) (Inl e)"
| gather_raise_other: "gather rs (Inl e) \<Longrightarrow> gather (r # rs) (Inl e)"

code_pred gather .

text \<open>
  \<^verbatim>\<open>_afunc\<close>. The second component lists the tool invocations of the coroutines, which are
  all started; as on the blocking path it is an upper bound when an exception propagates.
\<close>

inductive afunc ::
  "('a, 'c) tool_node \<Rightarrow> 'a state \<Rightarrow> 'c \<Rightarrow> (exn + node_output) \<times> 'a tool_call list \<Rightarrow> bool" where
  afunc_usage_error:
    "parse_input input = Inl e \<Longrightarrow> afunc self input config (Inl e, [])"
| afunc_raise:
    "parse_input input = Inr (calls, output_type) \<Longrightarrow>
     jobs = map (\<lambda>call. arun_one self call config) calls \<Longrightarrow>
     gather (map fst jobs) (Inl e) \<Longrightarrow>
     invoked = concat (map snd jobs) \<Longrightarrow>
     afunc self input config (Inl e, invoked)"
| afunc_return:
    "parse_input input = Inr (calls, output_type) \<Longrightarrow>
     jobs = map (\<lambda>call. arun_one self call config) calls \<Longrightarrow>
     gather (map fst jobs) (Inr outputs) \<Longrightarrow>
     out = assemble output_type outputs \<Longrightarrow>
     invoked = concat (map snd jobs) \<Longrightarrow>
     afunc self input config (Inr out, invoked)"

code_pred afunc .

subsection \<open>The routing predicate\<close>

text \<open>
  \<^verbatim>\<open>tools_condition\<close>; \<open>str_of\<close> is Python's formatting of the state inside the f-string of
  the error message.
\<close>

definition tools_condition :: "('a state \<Rightarrow> string) \<Rightarrow> 'a state \<Rightarrow> exn + string" where
  "tools_condition str_of state =
     (case
        (case state of
           State_list ms \<Rightarrow>
             (if ms = [] then Inl (IndexError ''list index out of range'') else Inr (last ms))
         | State_dict d \<Rightarrow>
             (case d ''messages'' of
                None \<Rightarrow>
                  Inl (ValueError (''No messages found in input state to tool_edge: '' @ str_of state))
              | Some messages \<Rightarrow>
                  (if messages = [] then
                     Inl (ValueError (''No messages found in input state to tool_edge: '' @ str_of state))
                   else Inr (last messages))))
      of
        Inl e \<Rightarrow> Inl e
      | Inr ai_message \<Rightarrow>
          (case tool_calls_attr ai_message of
             None \<Rightarrow> Inr ''__end__''
           | Some calls \<Rightarrow> if length calls > 0 then Inr ''tools'' else Inr ''__end__''))"

section \<open>The checkpoint store\<close>

text \<open>
  The store itself (\<^verbatim>\<open>langgraph.checkpoint.memory.MemorySaver\<close>) is not among the sources;
  \<^verbatim>\<open>libs/checkpoint/tests/test_memory.py\<close> only calls it. Its data and its operations
  \<open>put\<close> and \<open>list\<close> are therefore modelled from the specification of the store.
\<close>

text \<open>
  Modelled from the spec: the values of a \<^verbatim>\<open>CheckpointMetadata\<close> mapping (missing: the type
  \<^verbatim>\<open>CheckpointMetadata\<close> of \<^verbatim>\<open>langgraph.checkpoint.base\<close>). Metadata is a flat mapping from keys
  to values; a value may be a nested mapping such as \<^verbatim>\<open>writes\<close>, and values are compared
  structurally. A mapping is a finite map, so that two mappings are equal exactly when they
  have the same keys with equal values, in whatever order the keys were written.
\<close>

datatype mvalue =
    MNone
  | MInt int
  | MStr string
  | MMap "(string, mvalue) fmap"

type_synonym metadata = "(string, mvalue) fmap"

text \<open>
  Modelled from the spec: a \<^verbatim>\<open>Checkpoint\<close> (missing: the type \<^verbatim>\<open>Checkpoint\<close> of
  \<^verbatim>\<open>langgraph.checkpoint.base\<close>), with its \<^verbatim>\<open>id\<close>, which is the storage key, and its
  payload, which the store never inspects.
\<close>

record 'p checkpoint =
  ckpt_id :: string
  channel_values :: 'p

text \<open>
  Modelled from the spec: an address \<open>(thread_id, checkpoint_ns, checkpoint_id | absent)\<close>
  (missing: the \<^verbatim>\<open>configurable\<close> part of a \<^verbatim>\<open>RunnableConfig\<close> as the store reads it).
\<close>

record address =
  thread_id :: string
  checkpoint_ns :: string
  checkpoint_id :: "string option"

text \<open>
  Modelled from the spec: the address prefix given to \<open>list\<close>, which supplies at least the
  \<^verbatim>\<open>thread_id\<close> and may leave the \<^verbatim>\<open>checkpoint_ns\<close> out (missing: the same).
\<close>

record address_prefix =
  prefix_thread_id :: string
  prefix_checkpoint_ns :: "string option"

text \<open>
  Modelled from the spec: a \<^verbatim>\<open>CheckpointTuple\<close>, the unit returned by read operations
  (missing: the type \<^verbatim>\<open>CheckpointTuple\<close>). The specification of \<open>put\<close> does not say how the
  parent address is set, so the tuple of the model has none.
\<close>

record 'p checkpoint_tuple =
  tuple_address :: address
  tuple_checkpoint :: "'p checkpoint"
  tuple_metadata :: metadata

text \<open>
  Modelled from the spec: the state of the in-memory store (missing: the storage of
  \<^verbatim>\<open>MemorySaver\<close>), a two-level mapping from \<open>(thread_id, checkpoint_ns)\<close> to the entries of
  that bucket, keyed by checkpoint id.
\<close>

type_synonym 'p store = "string \<times> string \<Rightarrow> (string \<times> 'p checkpoint \<times> metadata) list"

text \<open>
  Modelled from the spec: the store before any \<open>put\<close> (missing: the initial storage of
  \<^verbatim>\<open>MemorySaver\<close>), in which every bucket is empty.
\<close>

definition empty_store :: "'p store" where
  "empty_store = (\<lambda>bucket. [])"

text \<open>
  Modelled from the spec: \<open>put\<close> (missing: \<^verbatim>\<open>MemorySaver.put\<close>) stores the checkpoint under
  \<open>(thread_id, checkpoint_ns, checkpoint.id)\<close>, replaces an entry with the same id, and returns
  the address with the id.
\<close>

definition put :: "'p store \<Rightarrow> address \<Rightarrow> 'p checkpoint \<Rightarrow> metadata \<Rightarrow> 'p store \<times> address" where
  "put st a c md =
     (let bucket = (thread_id a, checkpoint_ns a)
      in (st(bucket := AList.update (ckpt_id c) (c, md) (st bucket)),
          a\<lparr>checkpoint_id := Some (ckpt_id c)\<rparr>))"

text \<open>
  Modelled from the spec: the filter of \<open>list\<close> (missing: the metadata filter of
  \<^verbatim>\<open>MemorySaver.list\<close>). The metadata matches if and only if every key of the filter is present
  in it with an equal value; an absent filter matches everything.
\<close>

definition metadata_matches :: "metadata option \<Rightarrow> metadata \<Rightarrow> bool" where
  "metadata_matches flt md =
     (case flt of
        None \<Rightarrow> True
      | Some f \<Rightarrow> fmpred (\<lambda>k v. fmlookup md k = Some v) f)"

text \<open>
  Modelled from the spec: the tuple that \<open>list\<close> yields for an entry of a bucket (missing: the
  construction of \<^verbatim>\<open>CheckpointTuple\<close> in \<^verbatim>\<open>MemorySaver.list\<close>).
\<close>

definition make_tuple :: "string \<Rightarrow> string \<Rightarrow> string \<times> 'p checkpoint \<times> metadata \<Rightarrow> 'p checkpoint_tuple" where
  "make_tuple tid ns entry =
     (case entry of (i, c, md) \<Rightarrow>
        \<lparr>tuple_address = \<lparr>thread_id = tid, checkpoint_ns = ns, checkpoint_id = Some i\<rparr>,
         tuple_checkpoint = c,
         tuple_metadata = md\<rparr>)"

text \<open>
  Modelled from the spec: \<open>list\<close> (missing: \<^verbatim>\<open>MemorySaver.list\<close>). The namespace defaults to
  \<^verbatim>\<open>""\<close>; the entries of the bucket are taken by descending id; \<open>before\<close> keeps the ids
  strictly below the given one; the filter keeps the matching metadata; \<open>limit\<close> caps the number
  of results.
\<close>

definition list_checkpoints ::
  "'p store \<Rightarrow> address_prefix \<Rightarrow> metadata option \<Rightarrow> string option \<Rightarrow> nat option \<Rightarrow>
   'p checkpoint_tuple list" where
  "list_checkpoints st prefix flt before_id limit =
     (let tid = prefix_thread_id prefix;
          ns = (case prefix_checkpoint_ns prefix of None \<Rightarrow> '''' | Some n \<Rightarrow> n);
          newest_first = rev (sort_key fst (st (tid, ns)));
          earlier = filter (\<lambda>(i, c, md). case before_id of None \<Rightarrow> True | Some b \<Rightarrow> i < b) newest_first;
          matching = filter (\<lambda>(i, c, md). metadata_matches flt md) earlier;
          limited = (case limit of None \<Rightarrow> matching | Some n \<Rightarrow> take n matching)
      in map (make_tuple tid ns) limited)"

section \<open>Predicates of the claims\<close>

text \<open>
  The last message of a state, when there is one: the last element of a list, or of a
  non-empty \<^verbatim>\<open>"messages"\<close> entry of a dictionary.
\<close>

definition last_message :: "'a state \<Rightarrow> 'a message option" where
  "last_message st =
     (case st of
        State_list ms \<Rightarrow> if ms = [] then None else Some (last ms)
      | State_dict d \<Rightarrow>
          (case d ''messages'' of
             None \<Rightarrow> None
           | Some ms \<Rightarrow> if ms = [] then None else Some (last ms)))"

definition has_tool_calls :: "'a message \<Rightarrow> bool" where
  "has_tool_calls m = (case tool_calls_attr m of None \<Rightarrow> False | Some calls \<Rightarrow> calls \<noteq> [])"

definition is_carrier :: "'a message \<Rightarrow> bool" where
  "is_carrier m = (case m of AIMessage calls \<Rightarrow> True | OtherMessage a \<Rightarrow> False)"

definition well_formed :: "'a state \<Rightarrow> bool" where
  "well_formed st = (case last_message st of None \<Rightarrow> False | Some m \<Rightarrow> is_carrier m)"

text \<open>
  What happens to one invocation: its name is not a key of the catalog, or the tool found
  under the name raises, or it returns a message. \<open>via\<close> is \<open>invoke\<close> on the blocking path and
  \<open>ainvoke\<close> on the non-blocking one.
\<close>

datatype outcome =
    Rejected_unknown_action
  | Failed exn
  | Succeeded tool_message

definition outcome ::
  "(('a, 'c) base_tool \<Rightarrow> 'a tool_call \<Rightarrow> 'c \<Rightarrow> exn + tool_message) \<Rightarrow>
   ('a, 'c) tool_node \<Rightarrow> 'a tool_call \<Rightarrow> 'c \<Rightarrow> outcome" where
  "outcome via self call config =
     (case map_of (tools_by_name self) (call_name call) of
        None \<Rightarrow> Rejected_unknown_action
      | Some t \<Rightarrow> (case via t call config of Inl e \<Rightarrow> Failed e | Inr m \<Rightarrow> Succeeded m))"


text \<open>
  The record expected for each outcome when interception is enabled, and the number of
  positions of a result list that hold the record of an unknown action, of a failure, and of a
  success.
\<close>

definition unknown_action_record :: "('a, 'c) tool_node \<Rightarrow> 'a tool_call \<Rightarrow> tool_message" where
  "unknown_action_record self call =
     \<lparr>content = ''Error: '' @ call_name call @ '' is not a valid tool, try one of ['' @
                  join '', '' (map fst (tools_by_name self)) @ ''].'',
      name = call_name call,
      tool_call_id = call_id call\<rparr>"

definition execution_failure_record :: "'a tool_call \<Rightarrow> exn \<Rightarrow> tool_message" where
  "execution_failure_record call e =
     \<lparr>content = ''Error: '' @ repr e @ [CHR 0x0A] @ '' Please fix your mistakes.'',
      name = call_name call,
      tool_call_id = call_id call\<rparr>"

fun record_of :: "('a, 'c) tool_node \<Rightarrow> 'a tool_call \<Rightarrow> outcome \<Rightarrow> tool_message" where
  "record_of self call Rejected_unknown_action = unknown_action_record self call"
| "record_of self call (Failed e) = execution_failure_record call e"
| "record_of self call (Succeeded m) = m"

definition records ::
  "(('a, 'c) base_tool \<Rightarrow> 'a tool_call \<Rightarrow> 'c \<Rightarrow> exn + tool_message) \<Rightarrow>
   ('a, 'c) tool_node \<Rightarrow> 'c \<Rightarrow> 'a tool_call list \<Rightarrow> tool_message list" where
  "records via self config calls =
     map (\<lambda>call. record_of self call (outcome via self call config)) calls"


section \<open>Example values\<close>

text \<open>
  A tool that answers, a tool that raises, a tool call of a given name and id, the metadata
  of Scenario B, and the store of Scenario A after its three \<open>put\<close>s.
\<close>

definition search_tool :: "(unit, unit) base_tool" where
  "search_tool =
     \<lparr>tool_name = ''search'',
      invoke = (\<lambda>call config. Inr \<lparr>content = ''sunny'', name = ''search'', tool_call_id = call_id call\<rparr>),
      ainvoke = (\<lambda>call config. Inr \<lparr>content = ''sunny'', name = ''search'', tool_call_id = call_id call\<rparr>)\<rparr>"


definition tool_call :: "string \<Rightarrow> string \<Rightarrow> unit tool_call" where
  "tool_call n i = \<lparr>call_name = n, call_args = (), call_id = i\<rparr>"

definition metadata_1 :: metadata where
  "metadata_1 =
     fmap_of_list [(''source'', MStr ''input''), (''step'', MInt 2), (''writes'', MMap fmempty),
                   (''score'', MInt 1)]"

definition scenario_store :: "'p \<Rightarrow> 'p \<Rightarrow> 'p \<Rightarrow> metadata \<Rightarrow> metadata \<Rightarrow> metadata \<Rightarrow> 'p store" where
  "scenario_store v2 v2i v1 md2 md2i md1 =
     (let s1 = fst (put empty_store \<lparr>thread_id = ''thread-2'', checkpoint_ns = '''', checkpoint_id = None\<rparr>
                      \<lparr>ckpt_id = ''2'', channel_values = v2\<rparr> md2);
          s2 = fst (put s1 \<lparr>thread_id = ''thread-2'', checkpoint_ns = ''inner'', checkpoint_id = None\<rparr>
                      \<lparr>ckpt_id = ''2-inner'', channel_values = v2i\<rparr> md2i)
      in fst (put s2 \<lparr>thread_id = ''thread-1'', checkpoint_ns = '''', checkpoint_id = None\<rparr>
                \<lparr>ckpt_id = ''1'', channel_values = v1\<rparr> md1))"


section \<open>Lemmas\<close>

subsection \<open>Collecting results\<close>

lemma results_map_Inr: "results (map Inr xs) = Inr xs"
  by (induction xs) simp_all

lemma results_Inr_iff: "results rs = Inr outs \<longleftrightarrow> rs = map Inr outs"
proof
  show "results rs = Inr outs \<Longrightarrow> rs = map Inr outs"
    by (induction rs arbitrary: outs rule: results.induct) (auto split: sum.splits)
  show "rs = map Inr outs \<Longrightarrow> results rs = Inr outs"
    by (simp add: results_map_Inr)
qed




lemma gather_Inr_iff: "gather rs (Inr outs) \<longleftrightarrow> results rs = Inr outs"
  by (auto intro: gather_all elim: gather.cases)

lemma gather_Inl_iff: "gather rs (Inl e) \<longleftrightarrow> Inl e \<in> set rs"
proof
  assume "gather rs (Inl e)"
  then show "Inl e \<in> set rs"
    by (induction rs "Inl e :: exn + 'a list" rule: gather.induct) simp_all
next
  assume "Inl e \<in> set rs"
  then show "gather rs (Inl e)"
    by (induction rs) (auto intro: gather_raise_first gather_raise_other)
qed

lemma gather_map_Inr: "gather (map Inr xs) g \<longleftrightarrow> g = Inr xs"
  by (cases g) (auto simp: gather_Inl_iff gather_Inr_iff results_map_Inr)

lemma zip_replicate_map:
  "map (\<lambda>(x, y). f x y) (zip xs (replicate (length xs) c)) = map (\<lambda>x. f x c) xs"
  by (induction xs) simp_all

lemma executor_map_replicate:
  "executor_map f xs (replicate (length xs) c) =
     (results (map (\<lambda>x. fst (f x c)) xs), concat (map (\<lambda>x. snd (f x c)) xs))"
  unfolding executor_map_def Let_def zip_replicate_map by (simp add: comp_def)


subsection \<open>Parsing\<close>

lemma parse_input_list:
  "parse_input (State_list (ms @ [AIMessage calls])) = Inr (calls, OT_list)"
  by (simp add: parse_input_def)

lemma parse_input_dict:
  "parse_input (State_dict (d(''messages'' \<mapsto> ms @ [AIMessage calls]))) = Inr (calls, OT_dict)"
  by (simp add: parse_input_def)

lemma parse_input_last:
  "parse_input st =
     (case last_message st of
        None \<Rightarrow>
          (case st of
             State_list ms \<Rightarrow> Inl (IndexError ''list index out of range'')
           | State_dict d \<Rightarrow> Inl (ValueError ''No message found in input''))
      | Some (AIMessage calls) \<Rightarrow>
          Inr (calls, case st of State_list ms \<Rightarrow> OT_list | State_dict d \<Rightarrow> OT_dict)
      | Some (OtherMessage a) \<Rightarrow> Inl (ValueError ''Last message is not an AIMessage''))"
  by (simp add: parse_input_def last_message_def split: state.splits option.splits message.splits)

lemma parse_input_output_type:
  "parse_input input = Inr (calls, ot) \<Longrightarrow>
   ot = (case input of State_list ms \<Rightarrow> OT_list | State_dict d \<Rightarrow> OT_dict)"
  by (auto simp: parse_input_last split: option.splits message.splits state.splits)

lemma not_well_formed_parse:
  "\<not> well_formed st \<Longrightarrow> \<exists>e. parse_input st = Inl e"
  by (auto simp: parse_input_last well_formed_def is_carrier_def
      split: state.splits option.splits message.splits)


lemma assemble_shape:
  assumes "parse_input input = Inr (calls, ot)"
  shows "assemble ot outs =
           (case input of
              State_list ms \<Rightarrow> Out_list outs
            | State_dict d \<Rightarrow> Out_dict [(''messages'', outs)])"
  using parse_input_output_type [OF assms]
  by (simp add: assemble_def split: state.splits)

subsection \<open>One invocation\<close>

lemma validate_tool_call_map_of:
  "validate_tool_call self call =
     (case map_of (tools_by_name self) (call_name call) of
        None \<Rightarrow> Some (unknown_action_record self call)
      | Some t \<Rightarrow> None)"
proof (cases "map_of (tools_by_name self) (call_name call)")
  case None
  then have "call_name call \<notin> fst ` set (tools_by_name self)"
    by (simp add: map_of_eq_None_iff)
  with None show ?thesis
    by (simp add: validate_tool_call_def unknown_action_record_def
        INVALID_TOOL_NAME_ERROR_TEMPLATE_def Let_def)
next
  case (Some t)
  then have "call_name call \<in> fst ` set (tools_by_name self)"
    by (metis map_of_eq_None_iff option.distinct(1))
  with Some show ?thesis by (simp add: validate_tool_call_def Let_def)
qed

lemma except_clause_enabled:
  "truthy (handle_tool_errors self) \<Longrightarrow>
   except_clause self call e = Inr (execution_failure_record call e)"
  by (simp add: except_clause_def execution_failure_record_def TOOL_CALL_ERROR_TEMPLATE_def)


lemma run_one_outcome:
  "run_one self call config =
     (case outcome invoke self call config of
        Rejected_unknown_action \<Rightarrow> (Inr (unknown_action_record self call), [])
      | Failed e \<Rightarrow> (except_clause self call e, [call])
      | Succeeded m \<Rightarrow> (Inr m, [call]))"
  by (simp add: run_one_def outcome_def validate_tool_call_map_of split: option.splits sum.splits)

lemma arun_one_outcome:
  "arun_one self call config =
     (case outcome ainvoke self call config of
        Rejected_unknown_action \<Rightarrow> (Inr (unknown_action_record self call), [])
      | Failed e \<Rightarrow> (except_clause self call e, [call])
      | Succeeded m \<Rightarrow> (Inr m, [call]))"
  by (simp add: arun_one_def outcome_def validate_tool_call_map_of split: option.splits sum.splits)

lemma run_one_enabled:
  "truthy (handle_tool_errors self) \<Longrightarrow>
   fst (run_one self call config) = Inr (record_of self call (outcome invoke self call config))"
  by (simp add: run_one_outcome except_clause_enabled split: outcome.splits)

lemma arun_one_enabled:
  "truthy (handle_tool_errors self) \<Longrightarrow>
   fst (arun_one self call config) = Inr (record_of self call (outcome ainvoke self call config))"
  by (simp add: arun_one_outcome except_clause_enabled split: outcome.splits)











subsection \<open>The whole call\<close>

lemma func_parsed:
  assumes "parse_input input = Inr (calls, ot)"
  shows "func self input config =
    (map_sum id (assemble ot) (results (map (\<lambda>call. fst (run_one self call config)) calls)),
     concat (map (\<lambda>call. snd (run_one self call config)) calls))"
  using assms
  by (simp add: func_def get_config_list_def executor_map_replicate split: sum.splits)

lemma func_usage_error:
  "parse_input input = Inl e \<Longrightarrow> func self input config = (Inl e, [])"
  by (simp add: func_def)

lemma afunc_iff:
  "afunc self input config r \<longleftrightarrow>
     (case parse_input input of
        Inl e \<Rightarrow> r = (Inl e, [])
      | Inr (calls, ot) \<Rightarrow>
          (\<exists>g. gather (map (\<lambda>call. fst (arun_one self call config)) calls) g \<and>
               r = (map_sum id (assemble ot) g,
                    concat (map (\<lambda>call. snd (arun_one self call config)) calls))))"
proof (cases "parse_input input")
  case (Inl e)
  then show ?thesis by (auto simp: afunc.simps)
next
  case (Inr p)
  obtain calls ot where p: "p = (calls, ot)" by (cases p)
  let ?rs = "map (\<lambda>call. fst (arun_one self call config)) calls"
  let ?inv = "concat (map (\<lambda>call. snd (arun_one self call config)) calls)"
  have "afunc self input config r \<longleftrightarrow>
          (\<exists>e. gather ?rs (Inl e) \<and> r = (Inl e, ?inv)) \<or>
          (\<exists>outs. gather ?rs (Inr outs) \<and> r = (Inr (assemble ot outs), ?inv))"
    using Inr p by (auto simp: afunc.simps comp_def)
  also have "\<dots> \<longleftrightarrow> (\<exists>g. gather ?rs g \<and> r = (map_sum id (assemble ot) g, ?inv))"
  proof
    assume "(\<exists>e. gather ?rs (Inl e) \<and> r = (Inl e, ?inv)) \<or>
            (\<exists>outs. gather ?rs (Inr outs) \<and> r = (Inr (assemble ot outs), ?inv))"
    then show "\<exists>g. gather ?rs g \<and> r = (map_sum id (assemble ot) g, ?inv)"
    proof
      assume "\<exists>e. gather ?rs (Inl e) \<and> r = (Inl e, ?inv)"
      then obtain e where "gather ?rs (Inl e)" "r = (Inl e, ?inv)" by blast
      then have "gather ?rs (Inl e) \<and> r = (map_sum id (assemble ot) (Inl e), ?inv)" by simp
      then show ?thesis by blast
    next
      assume "\<exists>outs. gather ?rs (Inr outs) \<and> r = (Inr (assemble ot outs), ?inv)"
      then obtain outs where "gather ?rs (Inr outs)" "r = (Inr (assemble ot outs), ?inv)" by blast
      then have "gather ?rs (Inr outs) \<and> r = (map_sum id (assemble ot) (Inr outs), ?inv)" by simp
      then show ?thesis by blast
    qed
  next
    assume "\<exists>g. gather ?rs g \<and> r = (map_sum id (assemble ot) g, ?inv)"
    then obtain g where g: "gather ?rs g" "r = (map_sum id (assemble ot) g, ?inv)" by blast
    then show "(\<exists>e. gather ?rs (Inl e) \<and> r = (Inl e, ?inv)) \<or>
            (\<exists>outs. gather ?rs (Inr outs) \<and> r = (Inr (assemble ot outs), ?inv))"
      by (cases g) auto
  qed
  finally show ?thesis using Inr p by simp
qed

lemma run_all_enabled:
  "truthy (handle_tool_errors self) \<Longrightarrow>
   map (\<lambda>call. fst (run_one self call config)) calls = map Inr (records invoke self config calls)"
  by (simp add: records_def run_one_enabled)

lemma arun_all_enabled:
  "truthy (handle_tool_errors self) \<Longrightarrow>
   map (\<lambda>call. fst (arun_one self call config)) calls = map Inr (records ainvoke self config calls)"
  by (simp add: records_def arun_one_enabled)

lemma func_enabled:
  assumes "truthy (handle_tool_errors self)" and "parse_input input = Inr (calls, ot)"
  shows "fst (func self input config) = Inr (assemble ot (records invoke self config calls))"
  by (simp add: func_parsed [OF assms(2)] run_all_enabled [OF assms(1)] results_map_Inr)

lemma afunc_enabled:
  assumes "truthy (handle_tool_errors self)" and "parse_input input = Inr (calls, ot)"
  shows "afunc self input config r \<longleftrightarrow>
           r = (Inr (assemble ot (records ainvoke self config calls)),
                concat (map (\<lambda>call. snd (arun_one self call config)) calls))"
  by (simp add: afunc_iff assms(2) arun_all_enabled [OF assms(1)] gather_map_Inr)

lemma func_returns_iff:
  assumes "parse_input input = Inr (calls, ot)"
  shows "fst (func self input config) = Inr out \<longleftrightarrow>
           (\<exists>outs. map (\<lambda>call. fst (run_one self call config)) calls = map Inr outs \<and>
                   out = assemble ot outs)"
proof (cases "results (map (\<lambda>call. fst (run_one self call config)) calls)")
  case (Inl e)
  then have "\<not> (\<exists>outs. map (\<lambda>call. fst (run_one self call config)) calls = map Inr outs)"
    by (auto simp: results_map_Inr)
  then show ?thesis using Inl by (simp add: func_parsed [OF assms])
next
  case (Inr outs)
  then have "map (\<lambda>call. fst (run_one self call config)) calls = map Inr outs"
    by (simp add: results_Inr_iff)
  then show ?thesis using Inr by (auto simp: func_parsed [OF assms] inj_map_eq_map)
qed


lemma afunc_returns:
  assumes "parse_input input = Inr (calls, ot)"
    and "afunc self input config r" and "fst r = Inr out"
  shows "\<exists>outs. map (\<lambda>call. fst (arun_one self call config)) calls = map Inr outs \<and>
                out = assemble ot outs"
proof -
  from assms(2) obtain g where
    g: "gather (map (\<lambda>call. fst (arun_one self call config)) calls) g"
    and rg: "fst r = map_sum id (assemble ot) g"
    by (auto simp: afunc_iff assms(1))
  from rg assms(3) obtain outs where o: "g = Inr outs" "out = assemble ot outs"
    by (cases g) auto
  from g o(1) have "results (map (\<lambda>call. fst (arun_one self call config)) calls) = Inr outs"
    by (simp add: gather_Inr_iff)
  then show ?thesis using o(2) by (auto simp: results_Inr_iff)
qed


subsection \<open>The routing predicate and the store\<close>

lemma tools_condition_last:
  "tools_condition str_of st =
     (case last_message st of
        None \<Rightarrow>
          (case st of
             State_list ms \<Rightarrow> Inl (IndexError ''list index out of range'')
           | State_dict d \<Rightarrow>
               Inl (ValueError (''No messages found in input state to tool_edge: '' @ str_of st)))
      | Some m \<Rightarrow> Inr (if has_tool_calls m then ''tools'' else ''__end__''))"
  by (simp add: tools_condition_def last_message_def has_tool_calls_def
      split: state.splits option.splits)

lemma list_checkpoints_set:
  "set (list_checkpoints st prefix flt before None) =
     make_tuple (prefix_thread_id prefix)
                (case prefix_checkpoint_ns prefix of None \<Rightarrow> '''' | Some n \<Rightarrow> n) `
       {entry \<in> set (st (prefix_thread_id prefix,
                         case prefix_checkpoint_ns prefix of None \<Rightarrow> '''' | Some n \<Rightarrow> n)).
          (case before of None \<Rightarrow> True | Some b \<Rightarrow> fst entry < b) \<and>
          metadata_matches flt (snd (snd entry))}"
  by (auto simp: list_checkpoints_def Let_def split: option.splits)

lemma list_checkpoints_subset:
  "set (list_checkpoints st prefix flt before limit) \<subseteq>
   set (list_checkpoints st prefix flt before None)"
  by (cases limit) (auto simp: list_checkpoints_def Let_def dest: in_set_takeD)

lemma make_tuple_address:
  "tuple_address (make_tuple tid ns entry) =
     \<lparr>thread_id = tid, checkpoint_ns = ns, checkpoint_id = Some (fst entry)\<rparr>"
  by (simp add: make_tuple_def split: prod.splits)

section \<open>The claims\<close>










text \<open>
  Claim C5. For a well-formed trigger, whatever the call returns has the shape of the input:
  a bare list of records, one for each invocation, for a list of messages, and a dictionary
  with those records under \<^verbatim>\<open>"messages"\<close> for a dictionary. With interception enabled the call
  does return.
\<close>

theorem output_shape_mirrors_input:
  assumes "parse_input input = Inr (calls, ot)"
  shows "(\<forall>out. fst (func self input config) = Inr out \<longrightarrow>
            (case input of
               State_list ms \<Rightarrow> \<exists>outs. out = Out_list outs \<and> length outs = length calls
             | State_dict d \<Rightarrow>
                 \<exists>outs. out = Out_dict [(''messages'', outs)] \<and> length outs = length calls)) \<and>
         (\<forall>r out. afunc self input config r \<and> fst r = Inr out \<longrightarrow>
            (case input of
               State_list ms \<Rightarrow> \<exists>outs. out = Out_list outs \<and> length outs = length calls
             | State_dict d \<Rightarrow>
                 \<exists>outs. out = Out_dict [(''messages'', outs)] \<and> length outs = length calls)) \<and>
         (truthy (handle_tool_errors self) \<longrightarrow>
            (\<exists>out. fst (func self input config) = Inr out) \<and>
            (\<exists>r out. afunc self input config r \<and> fst r = Inr out))"
proof (intro conjI allI impI)
  fix out
  assume "fst (func self input config) = Inr out"
  then obtain outs where
    o: "map (\<lambda>call. fst (run_one self call config)) calls = map Inr outs" "out = assemble ot outs"
    by (auto simp: func_returns_iff [OF assms])
  from o(1) have "length outs = length calls" by (metis length_map)
  with assemble_shape [OF assms, of outs] o(2)
  show "case input of
               State_list ms \<Rightarrow> \<exists>outs. out = Out_list outs \<and> length outs = length calls
             | State_dict d \<Rightarrow>
                 \<exists>outs. out = Out_dict [(''messages'', outs)] \<and> length outs = length calls"
    by (auto split: state.splits)
next
  fix r out
  assume "afunc self input config r \<and> fst r = Inr out"
  then have "afunc self input config r" and "fst r = Inr out" by simp_all
  from afunc_returns [OF assms this] obtain outs where
    o: "map (\<lambda>call. fst (arun_one self call config)) calls = map Inr outs" "out = assemble ot outs"
    by auto
  from o(1) have "length outs = length calls" by (metis length_map)
  with assemble_shape [OF assms, of outs] o(2)
  show "case input of
               State_list ms \<Rightarrow> \<exists>outs. out = Out_list outs \<and> length outs = length calls
             | State_dict d \<Rightarrow>
                 \<exists>outs. out = Out_dict [(''messages'', outs)] \<and> length outs = length calls"
    by (auto split: state.splits)
next
  assume en: "truthy (handle_tool_errors self)"
  show "\<exists>out. fst (func self input config) = Inr out"
    by (simp add: func_enabled [OF en assms])
next
  assume en: "truthy (handle_tool_errors self)"
  have "afunc self input config
          (Inr (assemble ot (records ainvoke self config calls)),
           concat (map (\<lambda>call. snd (arun_one self call config)) calls))"
    by (simp add: afunc_enabled [OF en assms])
  then show "\<exists>r out. afunc self input config r \<and> fst r = Inr out"
    by (metis fst_conv)
qed

theorem output_shape_mirrors_input_witness:
  "parse_input (State_dict [''messages'' \<mapsto> [AIMessage [tool_call ''search'' ''1'']]]) =
     Inr ([tool_call ''search'' ''1''], OT_dict) \<and>
   (\<exists>outs. fst (func (ToolNode [search_tool] (Some True))
                   (State_dict [''messages'' \<mapsto> [AIMessage [tool_call ''search'' ''1'']]]) ()) =
             Inr (Out_dict [(''messages'', outs)]) \<and>
           length outs = 1)"
proof -
  let ?node = "ToolNode [search_tool] (Some True)"
  let ?input = "State_dict [''messages'' \<mapsto> [AIMessage [tool_call ''search'' ''1'']]]"
  have h1: "parse_input ?input = Inr ([tool_call ''search'' ''1''], OT_dict)"
    by (simp add: parse_input_def)
  have h2: "truthy (handle_tool_errors ?node)" by (simp add: ToolNode_def)
  note t = output_shape_mirrors_input [OF h1, of ?node "()"]
  from t h2 obtain out where o: "fst (func ?node ?input ()) = Inr out" by blast
  with t have "\<exists>outs. out = Out_dict [(''messages'', outs)] \<and>
      length outs = length [tool_call ''search'' ''1'']"
    by simp
  with o h1 show ?thesis by auto
qed

text \<open>
  Claim C6. When the input is neither a list whose last element is an \<^verbatim>\<open>AIMessage\<close> nor a
  dictionary whose \<^verbatim>\<open>"messages"\<close> entry is non-empty with an \<^verbatim>\<open>AIMessage\<close> last, the call raises
  the error of \<^verbatim>\<open>_parse_input\<close>: no result record is returned and no tool has been invoked, on
  the blocking and on the non-blocking path.
\<close>

theorem malformed_trigger_is_fatal:
  assumes "\<not> well_formed st"
  shows "\<exists>e. parse_input st = Inl e \<and> func self st config = (Inl e, []) \<and>
             (\<forall>r. afunc self st config r \<longleftrightarrow> r = (Inl e, []))"
proof -
  from assms obtain e where e: "parse_input st = Inl e"
    using not_well_formed_parse by blast
  have "func self st config = (Inl e, [])" using e by (rule func_usage_error)
  moreover have "\<forall>r. afunc self st config r \<longleftrightarrow> r = (Inl e, [])"
    using e by (simp add: afunc_iff)
  ultimately show ?thesis using e by blast
qed

theorem malformed_trigger_is_fatal_witness:
  "\<not> well_formed (State_dict [''messages'' \<mapsto> [AIMessage [], OtherMessage (None :: unit tool_call list option)]]) \<and>
   func (ToolNode [] (Some True))
        (State_dict [''messages'' \<mapsto> [AIMessage [], OtherMessage (None :: unit tool_call list option)]]) () =
     (Inl (ValueError ''Last message is not an AIMessage''), [])"
proof -
  let ?st = "State_dict [''messages'' \<mapsto> [AIMessage [], OtherMessage (None :: unit tool_call list option)]]"
  have h: "\<not> well_formed ?st"
    by (simp add: well_formed_def last_message_def is_carrier_def)
  have p: "parse_input ?st = Inl (ValueError ''Last message is not an AIMessage'')"
    by (simp add: parse_input_def)
  from malformed_trigger_is_fatal [OF h, of "ToolNode [] (Some True)" "()"] p h
  show ?thesis by auto
qed

text \<open>
  Claim C7. For every store, listing with a \<^verbatim>\<open>thread_id\<close> and no \<^verbatim>\<open>checkpoint_ns\<close> returns
  exactly the tuples of the entries stored under that thread and the namespace \<^verbatim>\<open>""\<close>; every
  tuple listed, whatever the filter, \<open>before\<close> and \<open>limit\<close>, has that namespace and comes from
  such an entry; the result is that of listing with the namespace \<^verbatim>\<open>""\<close> given, and does not
  depend on what the other buckets hold. After the three \<open>put\<close>s of Scenario A, listing by
  \<^verbatim>\<open>thread-2\<close> alone returns the one tuple of namespace \<^verbatim>\<open>""\<close>, and listing by
  \<^verbatim>\<open>thread-2\<close> and \<^verbatim>\<open>inner\<close> returns the one tuple of namespace \<^verbatim>\<open>inner\<close>.
\<close>

theorem list_defaults_to_root_namespace:
  "set (list_checkpoints st \<lparr>prefix_thread_id = t, prefix_checkpoint_ns = None\<rparr> None None None) =
     make_tuple t '''' ` set (st (t, '''')) \<and>
   (\<forall>tp \<in> set (list_checkpoints st \<lparr>prefix_thread_id = t, prefix_checkpoint_ns = None\<rparr>
                  flt before limit).
      thread_id (tuple_address tp) = t \<and> checkpoint_ns (tuple_address tp) = '''' \<and>
      (\<exists>entry \<in> set (st (t, '''')). tp = make_tuple t '''' entry)) \<and>
   list_checkpoints st \<lparr>prefix_thread_id = t, prefix_checkpoint_ns = None\<rparr> flt before limit =
     list_checkpoints st \<lparr>prefix_thread_id = t, prefix_checkpoint_ns = Some ''''\<rparr> flt before limit \<and>
   (\<forall>st'. st' (t, '''') = st (t, '''') \<longrightarrow>
      list_checkpoints st' \<lparr>prefix_thread_id = t, prefix_checkpoint_ns = None\<rparr> flt before limit =
      list_checkpoints st \<lparr>prefix_thread_id = t, prefix_checkpoint_ns = None\<rparr> flt before limit) \<and>
   list_checkpoints (scenario_store v2 v2i v1 md2 md2i md1)
       \<lparr>prefix_thread_id = ''thread-2'', prefix_checkpoint_ns = None\<rparr> None None None =
     [\<lparr>tuple_address = \<lparr>thread_id = ''thread-2'', checkpoint_ns = '''', checkpoint_id = Some ''2''\<rparr>,
       tuple_checkpoint = \<lparr>ckpt_id = ''2'', channel_values = v2\<rparr>,
       tuple_metadata = md2\<rparr>] \<and>
   list_checkpoints (scenario_store v2 v2i v1 md2 md2i md1)
       \<lparr>prefix_thread_id = ''thread-2'', prefix_checkpoint_ns = Some ''inner''\<rparr> None None None =
     [\<lparr>tuple_address = \<lparr>thread_id = ''thread-2'', checkpoint_ns = ''inner'',
                         checkpoint_id = Some ''2-inner''\<rparr>,
       tuple_checkpoint = \<lparr>ckpt_id = ''2-inner'', channel_values = v2i\<rparr>,
       tuple_metadata = md2i\<rparr>]"
proof (intro conjI)
  show "set (list_checkpoints st \<lparr>prefix_thread_id = t, prefix_checkpoint_ns = None\<rparr> None None None) =
     make_tuple t '''' ` set (st (t, ''''))"
    by (simp add: list_checkpoints_set metadata_matches_def)
  show "\<forall>tp \<in> set (list_checkpoints st \<lparr>prefix_thread_id = t, prefix_checkpoint_ns = None\<rparr>
                  flt before limit).
      thread_id (tuple_address tp) = t \<and> checkpoint_ns (tuple_address tp) = '''' \<and>
      (\<exists>entry \<in> set (st (t, '''')). tp = make_tuple t '''' entry)"
  proof
    fix tp
    assume "tp \<in> set (list_checkpoints st \<lparr>prefix_thread_id = t, prefix_checkpoint_ns = None\<rparr>
                  flt before limit)"
    then have "tp \<in> set (list_checkpoints st \<lparr>prefix_thread_id = t, prefix_checkpoint_ns = None\<rparr>
                  flt before None)"
      using list_checkpoints_subset by blast
    then obtain entry where "entry \<in> set (st (t, ''''))" "tp = make_tuple t '''' entry"
      by (auto simp: list_checkpoints_set)
    then show "thread_id (tuple_address tp) = t \<and> checkpoint_ns (tuple_address tp) = '''' \<and>
      (\<exists>entry \<in> set (st (t, '''')). tp = make_tuple t '''' entry)"
      by (auto simp: make_tuple_address)
  qed
  show "list_checkpoints st \<lparr>prefix_thread_id = t, prefix_checkpoint_ns = None\<rparr> flt before limit =
     list_checkpoints st \<lparr>prefix_thread_id = t, prefix_checkpoint_ns = Some ''''\<rparr> flt before limit"
    by (simp add: list_checkpoints_def)
  show "\<forall>st'. st' (t, '''') = st (t, '''') \<longrightarrow>
      list_checkpoints st' \<lparr>prefix_thread_id = t, prefix_checkpoint_ns = None\<rparr> flt before limit =
      list_checkpoints st \<lparr>prefix_thread_id = t, prefix_checkpoint_ns = None\<rparr> flt before limit"
    by (simp add: list_checkpoints_def)
  show "list_checkpoints (scenario_store v2 v2i v1 md2 md2i md1)
       \<lparr>prefix_thread_id = ''thread-2'', prefix_checkpoint_ns = None\<rparr> None None None =
     [\<lparr>tuple_address = \<lparr>thread_id = ''thread-2'', checkpoint_ns = '''', checkpoint_id = Some ''2''\<rparr>,
       tuple_checkpoint = \<lparr>ckpt_id = ''2'', channel_values = v2\<rparr>,
       tuple_metadata = md2\<rparr>]"
    by (simp add: list_checkpoints_def scenario_store_def put_def empty_store_def
        metadata_matches_def make_tuple_def Let_def)
  show "list_checkpoints (scenario_store v2 v2i v1 md2 md2i md1)
       \<lparr>prefix_thread_id = ''thread-2'', prefix_checkpoint_ns = Some ''inner''\<rparr> None None None =
     [\<lparr>tuple_address = \<lparr>thread_id = ''thread-2'', checkpoint_ns = ''inner'',
                         checkpoint_id = Some ''2-inner''\<rparr>,
       tuple_checkpoint = \<lparr>ckpt_id = ''2-inner'', channel_values = v2i\<rparr>,
       tuple_metadata = md2i\<rparr>]"
    by (simp add: list_checkpoints_def scenario_store_def put_def empty_store_def
        metadata_matches_def make_tuple_def Let_def)
qed

theorem list_defaults_to_root_namespace_witness:
  "\<lparr>tuple_address = \<lparr>thread_id = ''thread-2'', checkpoint_ns = '''', checkpoint_id = Some ''2''\<rparr>,
     tuple_checkpoint = \<lparr>ckpt_id = ''2'', channel_values = ()\<rparr>,
     tuple_metadata = fmempty\<rparr>
     \<in> set (list_checkpoints (scenario_store () () () fmempty fmempty fmempty)
              \<lparr>prefix_thread_id = ''thread-2'', prefix_checkpoint_ns = None\<rparr> None None None) \<and>
   checkpoint_ns (tuple_address
     \<lparr>tuple_address = \<lparr>thread_id = ''thread-2'', checkpoint_ns = '''', checkpoint_id = Some ''2''\<rparr>,
      tuple_checkpoint = \<lparr>ckpt_id = ''2'', channel_values = ()\<rparr>,
      tuple_metadata = fmempty\<rparr>) = '''' \<and>
   length (list_checkpoints (scenario_store () () () fmempty fmempty fmempty)
             \<lparr>prefix_thread_id = ''thread-2'', prefix_checkpoint_ns = None\<rparr> None None None) = 1 \<and>
   length (list_checkpoints (scenario_store () () () fmempty fmempty fmempty)
             \<lparr>prefix_thread_id = ''thread-2'', prefix_checkpoint_ns = Some ''inner''\<rparr> None None None) = 1"
proof -
  let ?S = "scenario_store () () () fmempty fmempty fmempty"
  let ?tp = "\<lparr>tuple_address = \<lparr>thread_id = ''thread-2'', checkpoint_ns = '''', checkpoint_id = Some ''2''\<rparr>,
     tuple_checkpoint = \<lparr>ckpt_id = ''2'', channel_values = ()\<rparr>,
     tuple_metadata = fmempty\<rparr>"
  note t = list_defaults_to_root_namespace [of ?S "''thread-2''" None None None "()" "()" "()"
      fmempty fmempty fmempty]
  from t have l1: "list_checkpoints ?S
      \<lparr>prefix_thread_id = ''thread-2'', prefix_checkpoint_ns = None\<rparr> None None None = [?tp]"
    by blast
  from t have l2: "length (list_checkpoints ?S
      \<lparr>prefix_thread_id = ''thread-2'', prefix_checkpoint_ns = Some ''inner''\<rparr> None None None) = 1"
    by simp
  from l1 have mem: "?tp \<in> set (list_checkpoints ?S
      \<lparr>prefix_thread_id = ''thread-2'', prefix_checkpoint_ns = None\<rparr> None None None)"
    by simp
  with t have "checkpoint_ns (tuple_address ?tp) = ''''" by blast
  with mem l1 l2 show ?thesis by simp
qed

text \<open>
  Claim C8. Without a limit, a tuple is listed if and only if it is the tuple of an entry of
  the bucket addressed, with an id below \<open>before\<close> when that is given, whose metadata matches
  the filter; a limit \<open>n\<close> keeps the first \<open>n\<close> of these. Metadata matches a filter if and only
  if every key bound by the filter is bound to the same value in the metadata, nested mappings
  being compared as mappings. No filter and the empty filter match every metadata; a filter
  with a key that the metadata lacks or binds to another value does not match. The metadata
  of Scenario B matches
  \<^verbatim>\<open>{source: input}\<close> and matches neither \<^verbatim>\<open>{step: 1, writes: {foo: bar}}\<close> nor
  \<^verbatim>\<open>{writes: {foo: bar}}\<close>.
\<close>

theorem filter_is_submapping:
  "(tp \<in> set (list_checkpoints st prefix flt before None) \<longleftrightarrow>
      (\<exists>entry \<in> set (st (prefix_thread_id prefix,
                          case prefix_checkpoint_ns prefix of None \<Rightarrow> '''' | Some n \<Rightarrow> n)).
         tp = make_tuple (prefix_thread_id prefix)
                (case prefix_checkpoint_ns prefix of None \<Rightarrow> '''' | Some n \<Rightarrow> n) entry \<and>
         (case before of None \<Rightarrow> True | Some b \<Rightarrow> fst entry < b) \<and>
         metadata_matches flt (snd (snd entry)))) \<and>
   list_checkpoints st prefix flt before (Some n) =
     take n (list_checkpoints st prefix flt before None) \<and>
   (metadata_matches (Some f) md \<longleftrightarrow>
      (\<forall>k v. fmlookup f k = Some v \<longrightarrow> fmlookup md k = Some v)) \<and>
   metadata_matches None md \<and>
   metadata_matches (Some fmempty) md \<and>
   (fmlookup f k = Some v \<and> fmlookup md k \<noteq> Some v \<longrightarrow> \<not> metadata_matches (Some f) md) \<and>
   metadata_matches (Some (fmap_of_list [(''source'', MStr ''input'')])) metadata_1 \<and>
   \<not> metadata_matches
       (Some (fmap_of_list [(''step'', MInt 1),
                            (''writes'', MMap (fmap_of_list [(''foo'', MStr ''bar'')]))]))
       metadata_1 \<and>
   \<not> metadata_matches
       (Some (fmap_of_list [(''writes'', MMap (fmap_of_list [(''foo'', MStr ''bar'')]))]))
       metadata_1"
proof (intro conjI)
  show "tp \<in> set (list_checkpoints st prefix flt before None) \<longleftrightarrow>
      (\<exists>entry \<in> set (st (prefix_thread_id prefix,
                          case prefix_checkpoint_ns prefix of None \<Rightarrow> '''' | Some n \<Rightarrow> n)).
         tp = make_tuple (prefix_thread_id prefix)
                (case prefix_checkpoint_ns prefix of None \<Rightarrow> '''' | Some n \<Rightarrow> n) entry \<and>
         (case before of None \<Rightarrow> True | Some b \<Rightarrow> fst entry < b) \<and>
         metadata_matches flt (snd (snd entry)))"
    unfolding list_checkpoints_set by auto
  show "list_checkpoints st prefix flt before (Some n) =
     take n (list_checkpoints st prefix flt before None)"
    by (simp add: list_checkpoints_def Let_def take_map)
  show m: "metadata_matches (Some f) md \<longleftrightarrow>
      (\<forall>k v. fmlookup f k = Some v \<longrightarrow> fmlookup md k = Some v)"
    by (simp add: metadata_matches_def fmpred_iff)
  show "metadata_matches None md" by (simp add: metadata_matches_def)
  show "metadata_matches (Some fmempty) md" by (simp add: metadata_matches_def)
  show "fmlookup f k = Some v \<and> fmlookup md k \<noteq> Some v \<longrightarrow> \<not> metadata_matches (Some f) md"
    using m by blast
  show "metadata_matches (Some (fmap_of_list [(''source'', MStr ''input'')])) metadata_1"
    by code_simp
  show "\<not> metadata_matches
       (Some (fmap_of_list [(''step'', MInt 1),
                            (''writes'', MMap (fmap_of_list [(''foo'', MStr ''bar'')]))]))
       metadata_1"
    by code_simp
  show "\<not> metadata_matches
       (Some (fmap_of_list [(''writes'', MMap (fmap_of_list [(''foo'', MStr ''bar'')]))]))
       metadata_1"
    by code_simp
qed

theorem filter_is_submapping_witness:
  "(''1'', \<lparr>ckpt_id = ''1'', channel_values = ()\<rparr>, metadata_1)
     \<in> set (scenario_store () () () fmempty fmempty metadata_1 (''thread-1'', '''')) \<and>
   metadata_matches (Some (fmap_of_list [(''source'', MStr ''input'')])) metadata_1 \<and>
   make_tuple ''thread-1'' '''' (''1'', \<lparr>ckpt_id = ''1'', channel_values = ()\<rparr>, metadata_1)
     \<in> set (list_checkpoints (scenario_store () () () fmempty fmempty metadata_1)
              \<lparr>prefix_thread_id = ''thread-1'', prefix_checkpoint_ns = None\<rparr>
              (Some (fmap_of_list [(''source'', MStr ''input'')])) None None)"
proof -
  let ?S = "scenario_store () () () fmempty fmempty metadata_1"
  let ?entry = "(''1'', \<lparr>ckpt_id = ''1'', channel_values = ()\<rparr>, metadata_1)"
  let ?prefix = "\<lparr>prefix_thread_id = ''thread-1'', prefix_checkpoint_ns = None\<rparr>"
  let ?f = "fmap_of_list [(''source'', MStr ''input'')]"
  note t = filter_is_submapping [of "make_tuple ''thread-1'' '''' ?entry" ?S ?prefix "Some ?f" None
      0 ?f metadata_1 "''source''" "MStr ''input''"]
  have h1: "?entry \<in> set (?S (''thread-1'', ''''))"
    by (simp add: scenario_store_def put_def empty_store_def Let_def)
  from t have h2: "metadata_matches (Some ?f) metadata_1" by blast
  have "\<exists>entry \<in> set (?S (prefix_thread_id ?prefix,
            case prefix_checkpoint_ns ?prefix of None \<Rightarrow> '''' | Some n \<Rightarrow> n)).
          make_tuple ''thread-1'' '''' ?entry =
            make_tuple (prefix_thread_id ?prefix)
              (case prefix_checkpoint_ns ?prefix of None \<Rightarrow> '''' | Some n \<Rightarrow> n) entry \<and>
          (case None of None \<Rightarrow> True | Some b \<Rightarrow> fst entry < b) \<and>
          metadata_matches (Some ?f) (snd (snd entry))"
    using h1 h2 by (intro bexI [of _ ?entry]) simp_all
  with t have "make_tuple ''thread-1'' '''' ?entry \<in> set (list_checkpoints ?S ?prefix (Some ?f) None None)"
    by blast
  with h1 h2 show ?thesis by simp
qed

text \<open>
  Claim C9. When the last message is an \<^verbatim>\<open>AIMessage\<close> with no tool calls, the call returns an
  empty list of records, bare for a list input and under \<^verbatim>\<open>"messages"\<close> for a dictionary
  input, and invokes no tool, on the blocking and on the non-blocking path.
\<close>

theorem empty_tool_calls:
  "func self (State_list (ms @ [AIMessage []])) config = (Inr (Out_list []), []) \<and>
   func self (State_dict (d(''messages'' \<mapsto> ms @ [AIMessage []]))) config =
     (Inr (Out_dict [(''messages'', [])]), []) \<and>
   (afunc self (State_list (ms @ [AIMessage []])) config r \<longleftrightarrow> r = (Inr (Out_list []), [])) \<and>
   (afunc self (State_dict (d(''messages'' \<mapsto> ms @ [AIMessage []]))) config r \<longleftrightarrow>
      r = (Inr (Out_dict [(''messages'', [])]), []))"
  apply (simp add: func_parsed [OF parse_input_list] func_parsed [OF parse_input_dict] assemble_def
      afunc_iff parse_input_list parse_input_dict gather_map_Inr [of "[]", simplified])
  done

theorem empty_tool_calls_witness:
  "func (ToolNode [] (Some True)) (State_list [AIMessage ([] :: unit tool_call list)]) () = (Inr (Out_list []), [])"
  using empty_tool_calls [where self = "ToolNode [] (Some True)" and ms = "[] :: unit message list"
      and config = "()"
      and d = Map.empty and r = "(Inr (Out_list []), [])"]
  by simp

text \<open>
  Claim C10. \<^verbatim>\<open>tools_condition\<close> returns \<^verbatim>\<open>"tools"\<close> exactly when the state has a last message
  (the last element of a list state, or of a non-empty \<^verbatim>\<open>"messages"\<close> entry of a dictionary
  state) and that message has a non-empty \<^verbatim>\<open>tool_calls\<close> attribute; it returns \<^verbatim>\<open>"__end__"\<close>
  exactly when there is a last message without one; it raises exactly when there is no last
  message (an empty list, a missing or an empty \<^verbatim>\<open>"messages"\<close> entry).
\<close>

theorem tools_condition_routes:
  "(tools_condition str_of st = Inr ''tools'' \<longleftrightarrow>
      (\<exists>m. last_message st = Some m \<and> has_tool_calls m)) \<and>
   (tools_condition str_of st = Inr ''__end__'' \<longleftrightarrow>
      (\<exists>m. last_message st = Some m \<and> \<not> has_tool_calls m)) \<and>
   ((\<exists>e. tools_condition str_of st = Inl e) \<longleftrightarrow> last_message st = None) \<and>
   (\<forall>r. tools_condition str_of st = Inr r \<longrightarrow> r = ''tools'' \<or> r = ''__end__'')"
  by (simp add: tools_condition_last split: state.splits option.splits)

theorem tools_condition_routes_witness:
  "last_message (State_list [OtherMessage None,
       AIMessage [\<lparr>call_name = ''search'', call_args = (), call_id = ''1''\<rparr>]]) =
     Some (AIMessage [\<lparr>call_name = ''search'', call_args = (), call_id = ''1''\<rparr>]) \<and>
   has_tool_calls (AIMessage [\<lparr>call_name = ''search'', call_args = (), call_id = ''1''\<rparr>]) \<and>
   tools_condition (\<lambda>st. ''state'') (State_list [OtherMessage None,
       AIMessage [\<lparr>call_name = ''search'', call_args = (), call_id = ''1''\<rparr>]]) = Inr ''tools''"
  using tools_condition_routes [of "\<lambda>st. ''state''" "State_list [OtherMessage None,
       AIMessage [\<lparr>call_name = ''search'', call_args = (), call_id = ''1''\<rparr>]]"]
  by (simp add: last_message_def has_tool_calls_def)

end
